theory Spec2Isabelle
  imports Complex_Main "HOL-Library.Sublist"
begin

section \<open>Python values shared by the modules\<close>

text \<open>
  Exceptions are values. The constructors are the exception classes the sources raise
  themselves; \<open>LibraryError\<close> stands for any exception that comes out of a library call
  (pandas, Chroma, the generator chain).
\<close>

datatype exn =
    FileNotFoundError string
  | ValueError string
  | AttributeError string
  | LibraryError string

text \<open>A value stored in a metadata dictionary: a string or an integer.\<close>

datatype meta_val = MStr string | MInt int

section \<open>The vector store manager (\<open>src/vector_store.py\<close>)\<close>

subsection \<open>Data\<close>

text \<open>
  A LangChain \<open>Document\<close>: its text and its metadata dictionary, kept as an association
  list in insertion order.
\<close>

record document =
  page_content :: string
  metadata :: "(string \<times> meta_val) list"

text \<open>
  The two embedding objects \<open>initialize_embeddings\<close> can construct, with the constructor
  arguments the source passes: the API key and model name for OpenAI, the model name for
  HuggingFace. The constructors themselves are library code and are taken to succeed.
\<close>

datatype embedder =
    OpenAIEmbeddings string string
  | HuggingFaceEmbeddings string

text \<open>
  A Chroma store as the manager sees it: the collection's name, its entries, the collection
  metadata (\<open>None\<close> when the collection was created without any) and the embedding
  function it was opened with.
\<close>

record chroma =
  collection_name :: string
  collection_entries :: "document list"
  collection_metadata :: "(string \<times> meta_val) list option"
  embedding_function :: embedder

text \<open>
  What can be at \<open>persist_directory\<close>: nothing, an empty directory, a directory Chroma
  opens (holding a collection), or a non-empty directory on which opening raises.
\<close>

datatype persisted =
    DirMissing
  | DirEmpty
  | DirIndex string "document list" "(string \<times> meta_val) list option"
  | DirCorrupt exn

text \<open>
  What can be at \<open>csv_path\<close>: no file, a file \<open>pd.read_csv\<close> raises on, or a table. Only
  the \<open>combined_info\<close> cell of each row is read: \<open>Some t\<close> is a cell the \<open>Document\<close>
  constructor accepts as text \<open>t\<close>, \<open>None\<close> a row for which constructing the document
  raises (no such column, or a cell that is not text).
\<close>

datatype csv =
    CsvMissing
  | CsvUnreadable exn
  | CsvTable "string option list"

text \<open>
  Chroma keeps one client per persist path for the life of the process, and every
  \<open>Chroma(...)\<close> and \<open>Chroma.from_documents\<close> on that path goes through it. What the process
  holds for \<open>persist_directory\<close>: no client; a client on the directory as it is; a client
  whose directory was removed under it; or what an open that raised has left behind.
\<close>

datatype client = NoClient | ClientOpen | ClientStale | ClientBroken

text \<open>
  The manager object together with the part of the world it reads and writes: the
  constructor's arguments, the three lazily created components, the module constant
  \<open>OPENAI_API_KEY\<close>, the file at \<open>csv_path\<close>, the directory at \<open>persist_directory\<close> and
  the process's Chroma client for that directory. A created text splitter is recorded by
  its two settings.
\<close>

record vstate =
  csv_path :: string
  persist_directory :: string
  embedding_model :: string
  chunk_size :: nat
  chunk_overlap :: nat
  embeddings :: "embedder option"
  vector_store :: "chroma option"
  text_splitter :: "(nat \<times> nat) option"
  OPENAI_API_KEY :: "string option"
  csv_file :: csv
  persist_dir :: persisted
  chroma_client :: client

text \<open>
  The text splitter is LangChain's \<open>RecursiveCharacterTextSplitter\<close>; its \<open>split_text\<close> is
  a parameter of the model: chunk size, chunk overlap and a text give the chunks.
\<close>

type_synonym splitter = "nat \<Rightarrow> nat \<Rightarrow> string \<Rightarrow> string list"

subsection \<open>Operations\<close>

text \<open>
  \<open>__init__\<close>: stores its arguments and creates the persist directory if it is missing. The
  last three arguments are the world the manager is constructed in.
\<close>

definition init_vector_store ::
  "string \<Rightarrow> string \<Rightarrow> string \<Rightarrow> nat \<Rightarrow> nat \<Rightarrow> string option \<Rightarrow> csv \<Rightarrow> persisted \<Rightarrow> client
     \<Rightarrow> vstate" where
  "init_vector_store csvp dir model csz cov key file pdir cl =
     \<lparr>csv_path = csvp, persist_directory = dir, embedding_model = model,
      chunk_size = csz, chunk_overlap = cov,
      embeddings = None, vector_store = None, text_splitter = None,
      OPENAI_API_KEY = key, csv_file = file,
      persist_dir = (if pdir = DirMissing then DirEmpty else pdir),
      chroma_client = cl\<rparr>"

definition load_csv_data :: "vstate \<Rightarrow> exn + string option list" where
  "load_csv_data s =
     (case csv_file s of
        CsvMissing \<Rightarrow> Inl (FileNotFoundError (''CSV file not found: '' @ csv_path s))
      | CsvUnreadable e \<Rightarrow> Inl e
      | CsvTable rows \<Rightarrow> Inr rows)"

text \<open>
  \<open>initialize_embeddings\<close>. \<open>not OPENAI_API_KEY\<close> holds for \<open>None\<close> and for the empty
  string. The function returns the embedder it has stored in \<open>self.embeddings\<close>, or the
  \<open>ValueError\<close> of the final check.
\<close>

definition initialize_embeddings :: "vstate \<Rightarrow> (exn + embedder) \<times> vstate" where
  "initialize_embeddings s =
     (let s1 = (if embedding_model s = ''openai'' then
                  (case OPENAI_API_KEY s of
                     None \<Rightarrow> s\<lparr>embedding_model := ''huggingface''\<rparr>
                   | Some k \<Rightarrow>
                       if k = [] then s\<lparr>embedding_model := ''huggingface''\<rparr>
                       else s\<lparr>embeddings := Some (OpenAIEmbeddings k ''text-embedding-ada-002'')\<rparr>)
                else s);
          s2 = (if embedding_model s1 = ''huggingface'' then
                  s1\<lparr>embeddings := Some (HuggingFaceEmbeddings ''sentence-transformers/all-MiniLM-L6-v2'')\<rparr>
                else s1)
      in case embeddings s2 of
           None \<Rightarrow> (Inl (ValueError (''Unsupported embedding model: '' @ embedding_model s2)), s2)
         | Some e \<Rightarrow> (Inr e, s2))"

text \<open>\<open>if self.embeddings is None: self.initialize_embeddings()\<close>, then \<open>self.embeddings\<close>.\<close>

definition get_embeddings :: "vstate \<Rightarrow> (exn + embedder) \<times> vstate" where
  "get_embeddings s =
     (case embeddings s of None \<Rightarrow> initialize_embeddings s | Some e \<Rightarrow> (Inr e, s))"

text \<open>
  \<open>create_text_splitter\<close>: the constructor of the splitter raises \<open>ValueError\<close> for a chunk
  size of 0 and for an overlap above the chunk size, and the handler re-raises it (the
  library's messages also name the numbers). Otherwise the splitter is stored.
\<close>

definition create_text_splitter :: "vstate \<Rightarrow> (exn + nat \<times> nat) \<times> vstate" where
  "create_text_splitter s =
     (if chunk_size s = 0 then (Inl (ValueError ''chunk_size must be > 0''), s)
      else if chunk_size s < chunk_overlap s then
        (Inl (ValueError ''Got a larger chunk overlap than chunk size, should be smaller.''), s)
      else (Inr (chunk_size s, chunk_overlap s),
            s\<lparr>text_splitter := Some (chunk_size s, chunk_overlap s)\<rparr>))"

text \<open>
  \<open>create_documents\<close>: one document per row, with the row's ordinal as \<open>anime_id\<close>; a row
  whose document cannot be constructed is skipped (the inner \<open>except: continue\<close>).
\<close>

definition row_document :: "nat \<times> string option \<Rightarrow> document list" where
  "row_document p =
     (case snd p of
        None \<Rightarrow> []
      | Some t \<Rightarrow>
          [\<lparr>page_content = t,
            metadata = [(''anime_id'', MInt (int (fst p))),
                        (''source'', MStr ''combined_info''),
                        (''chunk_type'', MStr ''anime_info'')]\<rparr>])"

definition create_documents :: "string option list \<Rightarrow> document list" where
  "create_documents rows = concat (map row_document (enumerate 0 rows))"

text \<open>
  \<open>split_documents\<close> of the splitter: every chunk of a document's text becomes a document
  with a copy of that document's metadata.
\<close>

definition split_documents :: "splitter \<Rightarrow> nat \<times> nat \<Rightarrow> document list \<Rightarrow> document list" where
  "split_documents split cfg documents =
     concat (map (\<lambda>d. map (\<lambda>t. d\<lparr>page_content := t\<rparr>) (split (fst cfg) (snd cfg) (page_content d)))
                 documents)"

text \<open>\<open>if self.text_splitter is None: self.create_text_splitter()\<close>, then the splitter.\<close>

definition get_text_splitter :: "vstate \<Rightarrow> (exn + nat \<times> nat) \<times> vstate" where
  "get_text_splitter s =
     (case text_splitter s of None \<Rightarrow> create_text_splitter s | Some cfg \<Rightarrow> (Inr cfg, s))"

definition chunk_documents ::
  "splitter \<Rightarrow> document list \<Rightarrow> vstate \<Rightarrow> (exn + document list) \<times> vstate" where
  "chunk_documents split documents s =
     (case get_text_splitter s of
        (Inl e, s1) \<Rightarrow> (Inl e, s1)
      | (Inr cfg, s1) \<Rightarrow> (Inr (split_documents split cfg documents), s1))"

text \<open>
  The two exceptions Chroma raises through a client that can no longer be used: through
  what a failed open has left behind, and through a client whose directory was removed.
\<close>

definition broken_client_error :: exn where
  "broken_client_error =
     AttributeError (CHR 0x27 # ''RustBindingsAPI'' @ CHR 0x27 # '' object has no attribute '' @
                     CHR 0x27 # ''bindings'' @ [CHR 0x27])"

definition stale_client_error :: exn where
  "stale_client_error = LibraryError ''attempt to write a readonly database''"

text \<open>
  \<open>Chroma.from_documents\<close> on the persist directory. Through a broken or stale client it
  raises. Otherwise a missing or empty directory gets a fresh collection named
  \<open>langchain\<close> without collection metadata; an existing collection is opened and the
  documents are added to it; a directory that cannot be opened raises and leaves the
  client broken. After a success the process holds a client on the directory and the
  directory holds the collection. Embedding the documents is library code and is taken to
  succeed.
\<close>

definition from_documents :: "document list \<Rightarrow> embedder \<Rightarrow> vstate \<Rightarrow> (exn + chroma) \<times> vstate" where
  "from_documents documents emb s =
     (case chroma_client s of
        ClientBroken \<Rightarrow> (Inl broken_client_error, s)
      | ClientStale \<Rightarrow> (Inl stale_client_error, s)
      | _ \<Rightarrow>
          (case persist_dir s of
             DirCorrupt e \<Rightarrow> (Inl e, s\<lparr>chroma_client := ClientBroken\<rparr>)
           | DirIndex name old md \<Rightarrow>
               (Inr \<lparr>collection_name = name, collection_entries = old @ documents,
                     collection_metadata = md, embedding_function = emb\<rparr>,
                s\<lparr>persist_dir := DirIndex name (old @ documents) md,
                  chroma_client := ClientOpen\<rparr>)
           | _ \<Rightarrow>
               (Inr \<lparr>collection_name = ''langchain'', collection_entries = documents,
                     collection_metadata = None, embedding_function = emb\<rparr>,
                s\<lparr>persist_dir := DirIndex ''langchain'' documents None,
                  chroma_client := ClientOpen\<rparr>)))"

definition create_vector_store :: "document list \<Rightarrow> vstate \<Rightarrow> (exn + chroma) \<times> vstate" where
  "create_vector_store documents s =
     (case get_embeddings s of
        (Inl e, s1) \<Rightarrow> (Inl e, s1)
      | (Inr emb, s1) \<Rightarrow>
          (case from_documents documents emb s1 of
             (Inl e, s2) \<Rightarrow> (Inl e, s2)
           | (Inr st, s2) \<Rightarrow> (Inr st, s2\<lparr>vector_store := Some st\<rparr>)))"

text \<open>
  \<open>Chroma(persist_directory=..., embedding_function=...)\<close>: through a broken or stale
  client it raises; a directory Chroma opens gives the store, a directory it cannot open
  raises and leaves the client broken. The manager calls it on a directory that exists and
  is not empty only; on another one Chroma would create an empty collection.
\<close>

definition open_chroma :: "embedder \<Rightarrow> vstate \<Rightarrow> (exn + chroma) \<times> vstate" where
  "open_chroma emb s =
     (case chroma_client s of
        ClientBroken \<Rightarrow> (Inl broken_client_error, s)
      | ClientStale \<Rightarrow> (Inl stale_client_error, s)
      | _ \<Rightarrow>
          (case persist_dir s of
             DirCorrupt e \<Rightarrow> (Inl e, s\<lparr>chroma_client := ClientBroken\<rparr>)
           | DirIndex name old md \<Rightarrow>
               (Inr \<lparr>collection_name = name, collection_entries = old,
                     collection_metadata = md, embedding_function = emb\<rparr>,
                s\<lparr>chroma_client := ClientOpen\<rparr>)
           | _ \<Rightarrow>
               (Inr \<lparr>collection_name = ''langchain'', collection_entries = [],
                     collection_metadata = None, embedding_function = emb\<rparr>,
                s\<lparr>persist_dir := DirIndex ''langchain'' [] None,
                  chroma_client := ClientOpen\<rparr>)))"

text \<open>
  \<open>load_existing_vector_store\<close>: the directory is opened only if it exists and is not
  empty. Every exception is caught and answered with \<open>None\<close>, that of
  \<open>initialize_embeddings\<close> (outer handler) as well as that of opening the directory (inner
  handler).
\<close>

definition load_existing_vector_store :: "vstate \<Rightarrow> chroma option \<times> vstate" where
  "load_existing_vector_store s =
     (case get_embeddings s of
        (Inl e, s1) \<Rightarrow> (None, s1)
      | (Inr emb, s1) \<Rightarrow>
          (if persist_dir s1 \<noteq> DirMissing \<and> persist_dir s1 \<noteq> DirEmpty then
             (case open_chroma emb s1 of
                (Inl e, s2) \<Rightarrow> (None, s2)
              | (Inr st, s2) \<Rightarrow> (Some st, s2\<lparr>vector_store := Some st\<rparr>))
           else (None, s1)))"

text \<open>
  \<open>shutil.rmtree\<close> and \<open>os.makedirs\<close> on the persist directory: it is empty afterwards, and
  a client the process holds on it is stale.
\<close>

definition remove_directory :: "vstate \<Rightarrow> vstate" where
  "remove_directory s =
     s\<lparr>persist_dir := DirEmpty,
       chroma_client := (if chroma_client s = ClientOpen then ClientStale else chroma_client s)\<rparr>"

text \<open>
  The second half of \<open>build_vector_store\<close> (from the comment ``If we get here, we need to
  build a new vector store''): remove and recreate the directory if it exists, load the
  CSV, create and chunk the documents, create the store.
\<close>

definition build_new_vector_store :: "splitter \<Rightarrow> vstate \<Rightarrow> (exn + chroma) \<times> vstate" where
  "build_new_vector_store split s =
     (let s1 = (if persist_dir s \<noteq> DirMissing then remove_directory s else s) in
      case load_csv_data s1 of
        Inl e \<Rightarrow> (Inl e, s1)
      | Inr rows \<Rightarrow>
          (case chunk_documents split (create_documents rows) s1 of
             (Inl e, s2) \<Rightarrow> (Inl e, s2)
           | (Inr chunked_docs, s2) \<Rightarrow> create_vector_store chunked_docs s2))"

text \<open>
  \<open>build_vector_store\<close>. The class defines no method \<open>_incremental_update\<close>, so the call
  in the incremental branch raises \<open>AttributeError\<close>; the handler of the function logs and
  re-raises.
\<close>

definition build_vector_store :: "splitter \<Rightarrow> bool \<Rightarrow> bool \<Rightarrow> vstate \<Rightarrow> (exn + chroma) \<times> vstate" where
  "build_vector_store split force_rebuild incremental_update s =
     (if \<not> force_rebuild then
        (case load_existing_vector_store s of
           (Some existing_store, s1) \<Rightarrow>
             if incremental_update then
               (Inl (AttributeError
                  (CHR 0x27 # ''AnimeVectorStore'' @ CHR 0x27 # '' object has no attribute '' @
                   CHR 0x27 # ''_incremental_update'' @ [CHR 0x27])), s1)
             else (Inr existing_store, s1\<lparr>vector_store := Some existing_store\<rparr>)
         | (None, s1) \<Rightarrow> build_new_vector_store split s1)
      else build_new_vector_store split s)"

text \<open>The dictionary \<open>get_collection_info\<close> returns.\<close>

record collection_info =
  info_collection_name :: string
  document_count :: nat
  embedding_dimension :: meta_val
  info_persist_directory :: string

text \<open>
  \<open>get_collection_info\<close>. The entry under \<open>embedding_dimension\<close> is what the collection
  metadata holds under the key \<open>hnsw:space\<close>, or the string \<open>unknown\<close> when the metadata is
  \<open>None\<close>, empty or without that key.
\<close>

definition get_collection_info :: "vstate \<Rightarrow> exn + collection_info" where
  "get_collection_info s =
     (case vector_store s of
        None \<Rightarrow> Inl (ValueError ''Vector store not initialized'')
      | Some st \<Rightarrow>
          (let md = (case collection_metadata st of None \<Rightarrow> [] | Some m \<Rightarrow> m);
               dim = (if md = [] then MStr ''unknown''
                      else (case map_of md ''hnsw:space'' of
                              None \<Rightarrow> MStr ''unknown''
                            | Some v \<Rightarrow> v))
           in Inr \<lparr>info_collection_name = collection_name st,
                   document_count = length (collection_entries st),
                   embedding_dimension = dim,
                   info_persist_directory = persist_directory s\<rparr>))"


subsection \<open>Auxiliary notions for the statements\<close>

text \<open>
  An embedder is available to the manager when one is already stored or the configured
  model is one of the two names \<open>initialize_embeddings\<close> knows.
\<close>

definition emb_available :: "vstate \<Rightarrow> bool" where
  "emb_available s \<longleftrightarrow>
     embeddings s \<noteq> None \<or> embedding_model s = ''openai'' \<or> embedding_model s = ''huggingface''"

text \<open>
  A splitter is available when one is already stored or the constructor accepts the two
  settings; \<open>splitter_settings\<close> are the settings of the splitter the manager then uses.
\<close>

definition splitter_available :: "vstate \<Rightarrow> bool" where
  "splitter_available s \<longleftrightarrow>
     text_splitter s \<noteq> None \<or> (0 < chunk_size s \<and> chunk_overlap s \<le> chunk_size s)"

definition splitter_settings :: "vstate \<Rightarrow> nat \<times> nat" where
  "splitter_settings s =
     (case text_splitter s of None \<Rightarrow> (chunk_size s, chunk_overlap s) | Some cfg \<Rightarrow> cfg)"


text \<open>
  Modelled from the spec: the text splitter is library code that is not under \<open>src/\<close>;
  the spec describes it as cutting a text ``into overlapping windows'' of a configured
  window size and overlap. This instance of the splitter parameter is used for concrete
  inputs only. On a text without separators (no blank and no line break), as in the inputs
  below, these are the chunks \<open>RecursiveCharacterTextSplitter\<close> returns: a text within
  the chunk size is one chunk, an empty text gives none, and a longer text is cut into
  windows of \<open>chunk_size\<close> characters, each starting \<open>chunk_size - chunk_overlap\<close> after
  the previous one. With an overlap that is not below the chunk size, a setting the inputs
  below do not use, the text is left whole.
\<close>

function window_split :: splitter where
  "window_split csz cov t =
     (if t = [] then []
      else if length t \<le> csz \<or> csz \<le> cov then [t]
      else take csz t # window_split csz cov (drop (csz - cov) t))"
  by pat_completeness auto
termination
  by (relation "measure (\<lambda>(csz, cov, t). length t)") auto

declare window_split.simps [simp del]

text \<open>
  A manager constructed with the default chunk settings (1000 and 200) and the default
  embedding model \<open>openai\<close>, in a process that holds no client for the directory; and a text
  of 1001 characters without separators.
\<close>

definition default_manager :: "string option \<Rightarrow> csv \<Rightarrow> persisted \<Rightarrow> vstate" where
  "default_manager key file pdir =
     init_vector_store ''data/combined_info.csv'' ''data/chroma_db'' ''openai'' 1000 200 key file pdir
       NoClient"



section \<open>The ingestion pipeline (\<open>pipeline/pipeline.py\<close>)\<close>

text \<open>\<open>str(e)\<close> of an exception: its message.\<close>

fun exn_str :: "exn \<Rightarrow> string" where
  "exn_str (FileNotFoundError m) = m"
| "exn_str (ValueError m) = m"
| "exn_str (AttributeError m) = m"
| "exn_str (LibraryError m) = m"

text \<open>
  The pipeline object: the dictionary \<open>self.pipeline_status\<close> (three stage flags and the
  overall status, a string) and, in \<open>world\<close>, everything else the stages read and write
  (the component objects, the files, the index).
\<close>

record 'w pipeline =
  data_loading :: bool
  vector_store_creation :: bool
  recommender_initialization :: bool
  overall_status :: string
  world :: 'w

text \<open>The dictionary \<open>results\<close> of \<open>run_complete_pipeline\<close>.\<close>

record 'r pipeline_results =
  pipeline_status :: string
  steps_completed :: "string list"
  errors :: "string list"
  statistics :: "(string \<times> 'r) list"

text \<open>
  The work of a stage (the statements of a \<open>_run_..._step\<close> before its flag is set): it
  changes the world and either yields the stage's result dictionary or raises.
\<close>

type_synonym ('w, 'r) stage = "'w \<Rightarrow> (exn + 'r) \<times> 'w"

definition init_pipeline :: "'w \<Rightarrow> 'w pipeline" where
  "init_pipeline w =
     \<lparr>data_loading = False, vector_store_creation = False,
      recommender_initialization = False, overall_status = ''not_started'', world = w\<rparr>"

text \<open>
  The three step methods: on success the stage's flag is set to \<open>True\<close> and the result
  returned; on an exception the flag is set to \<open>False\<close> and the exception re-raised.
\<close>

definition run_data_loading_step :: "('w, 'r) stage \<Rightarrow> 'w pipeline \<Rightarrow> (exn + 'r) \<times> 'w pipeline" where
  "run_data_loading_step body p =
     (case body (world p) of
        (Inr r, w) \<Rightarrow> (Inr r, p\<lparr>world := w, data_loading := True\<rparr>)
      | (Inl e, w) \<Rightarrow> (Inl e, p\<lparr>world := w, data_loading := False\<rparr>))"

definition run_vector_store_step :: "('w, 'r) stage \<Rightarrow> 'w pipeline \<Rightarrow> (exn + 'r) \<times> 'w pipeline" where
  "run_vector_store_step body p =
     (case body (world p) of
        (Inr r, w) \<Rightarrow> (Inr r, p\<lparr>world := w, vector_store_creation := True\<rparr>)
      | (Inl e, w) \<Rightarrow> (Inl e, p\<lparr>world := w, vector_store_creation := False\<rparr>))"

definition run_recommender_step :: "('w, 'r) stage \<Rightarrow> 'w pipeline \<Rightarrow> (exn + 'r) \<times> 'w pipeline" where
  "run_recommender_step body p =
     (case body (world p) of
        (Inr r, w) \<Rightarrow> (Inr r, p\<lparr>world := w, recommender_initialization := True\<rparr>)
      | (Inl e, w) \<Rightarrow> (Inl e, p\<lparr>world := w, recommender_initialization := False\<rparr>))"

text \<open>The handler of \<open>run_complete_pipeline\<close>.\<close>

definition pipeline_failed ::
  "exn \<Rightarrow> 'r pipeline_results \<Rightarrow> 'w pipeline \<Rightarrow> 'r pipeline_results \<times> 'w pipeline" where
  "pipeline_failed e results p =
     (results\<lparr>pipeline_status := ''failed'', errors := errors results @ [exn_str e]\<rparr>,
      p\<lparr>overall_status := ''failed''\<rparr>)"

text \<open>
  \<open>run_complete_pipeline\<close>. The work of the three stages is a parameter; that of the
  vector store stage takes \<open>force_rebuild\<close>.
\<close>

definition run_complete_pipeline ::
  "('w, 'r) stage \<Rightarrow> (bool \<Rightarrow> ('w, 'r) stage) \<Rightarrow> ('w, 'r) stage \<Rightarrow> bool \<Rightarrow> 'w pipeline
     \<Rightarrow> 'r pipeline_results \<times> 'w pipeline" where
  "run_complete_pipeline data_body vector_body recommender_body force_rebuild p =
     (let results0 = \<lparr>pipeline_status = ''running'', steps_completed = [], errors = [],
                       statistics = []\<rparr>
      in case run_data_loading_step data_body p of
           (Inl e, p1) \<Rightarrow> pipeline_failed e results0 p1
         | (Inr data_results, p1) \<Rightarrow>
             (let results1 = results0
                    \<lparr>steps_completed := steps_completed results0 @ [''data_loading''],
                     statistics := statistics results0 @ [(''data_loading'', data_results)]\<rparr>
              in case run_vector_store_step (vector_body force_rebuild) p1 of
                   (Inl e, p2) \<Rightarrow> pipeline_failed e results1 p2
                 | (Inr vector_results, p2) \<Rightarrow>
                     (let results2 = results1
                            \<lparr>steps_completed := steps_completed results1 @ [''vector_store_creation''],
                             statistics := statistics results1 @ [(''vector_store'', vector_results)]\<rparr>
                      in case run_recommender_step recommender_body p2 of
                           (Inl e, p3) \<Rightarrow> pipeline_failed e results2 p3
                         | (Inr recommender_results, p3) \<Rightarrow>
                             (results2
                                \<lparr>steps_completed :=
                                   steps_completed results2 @ [''recommender_initialization''],
                                 statistics :=
                                   statistics results2 @ [(''recommender'', recommender_results)],
                                 pipeline_status := ''completed''\<rparr>,
                              p3\<lparr>overall_status := ''completed''\<rparr>))))"

text \<open>
  Stages for concrete inputs: the world is the list of the stages that have run, and a
  stage appends its name and succeeds with a number or raises.
\<close>

definition logging_stage :: "string \<Rightarrow> exn + nat \<Rightarrow> (string list, nat) stage" where
  "logging_stage name outcome w = (outcome, w @ [name])"

section \<open>The recommender (\<open>src/recommender.py\<close>)\<close>

subsection \<open>Strings\<close>

text \<open>
  Texts are ASCII. \<open>py_isspace\<close> is \<open>str.isspace\<close> on an ASCII character: tab, line feed,
  vertical tab, form feed, carriage return, the four separators \<open>0x1C\<close> to \<open>0x1F\<close> and the
  blank.
\<close>

definition py_isspace :: "char \<Rightarrow> bool" where
  "py_isspace c \<longleftrightarrow>
     c \<in> set [CHR 0x09, CHR 0x0A, CHR 0x0B, CHR 0x0C, CHR 0x0D,
              CHR 0x1C, CHR 0x1D, CHR 0x1E, CHR 0x1F, CHR '' '']"

text \<open>\<open>str.split()\<close> without argument: the maximal runs of characters that are not whitespace.\<close>

fun split_acc :: "string \<Rightarrow> string \<Rightarrow> string list" where
  "split_acc cur [] = (if cur = [] then [] else [cur])"
| "split_acc cur (c # cs) =
     (if py_isspace c then (if cur = [] then split_acc [] cs else cur # split_acc [] cs)
      else split_acc (cur @ [c]) cs)"

definition py_split :: "string \<Rightarrow> string list" where
  "py_split s = split_acc [] s"

text \<open>\<open>' '.join(xs)\<close>.\<close>

fun join_sp :: "string list \<Rightarrow> string" where
  "join_sp [] = []"
| "join_sp [x] = x"
| "join_sp (x # y # ys) = x @ '' '' @ join_sp (y # ys)"

subsection \<open>Data\<close>

text \<open>
  The dictionary a chain invocation returns; a value is kept as the text \<open>str\<close> gives for
  it, which is what the f-string of \<open>get_recommendations\<close> puts into the answer.
\<close>

type_synonym response = "(string \<times> string) list"

text \<open>
  The recommender object: the model name, \<open>self.vector_store\<close> and \<open>self.retrieval_chain\<close>.
  An initialised chain is the function \<open>invoke\<close> computes on the query: a response or an
  exception.
\<close>

record recommender =
  model_name :: string
  r_vector_store :: "chroma option"
  retrieval_chain :: "(string \<Rightarrow> exn + response) option"

text \<open>The similarity search of the Chroma store is library code: a parameter.\<close>

type_synonym searcher = "chroma \<Rightarrow> string \<Rightarrow> nat \<Rightarrow> exn + document list"



record rating_recommendation =
  title :: string
  genre :: string
  rating :: rat
  runtime :: string
  certificate :: string

subsection \<open>Operations\<close>

definition get_similar_movies :: "searcher \<Rightarrow> recommender \<Rightarrow> string \<Rightarrow> nat \<Rightarrow> exn + document list" where
  "get_similar_movies search r q k =
     (case r_vector_store r of
        None \<Rightarrow> Inl (ValueError ''Vector store not initialized'')
      | Some st \<Rightarrow> search st q k)"




text \<open>
  \<open>_parse_movie_info\<close>: the loop over the parts, with the dictionary \<open>info\<close>, \<open>current_key\<close>
  and \<open>current_value\<close>. \<open>save_pair\<close> is the statement
  \<open>if current_key and current_value: info[current_key] = ' '.join(current_value)\<close>.
\<close>

definition save_pair :: "string option \<Rightarrow> string list \<Rightarrow> (string \<rightharpoonup> string) \<Rightarrow> (string \<rightharpoonup> string)" where
  "save_pair current_key current_value info =
     (case current_key of
        None \<Rightarrow> info
      | Some k \<Rightarrow> if k \<noteq> [] \<and> current_value \<noteq> [] then info(k \<mapsto> join_sp current_value) else info)"

fun parse_parts ::
  "(string \<rightharpoonup> string) \<Rightarrow> string option \<Rightarrow> string list \<Rightarrow> string list \<Rightarrow> (string \<rightharpoonup> string)" where
  "parse_parts info current_key current_value [] = save_pair current_key current_value info"
| "parse_parts info current_key current_value (part # parts) =
     (if part \<noteq> [] \<and> last part = CHR '':'' then
        parse_parts (save_pair current_key current_value info) (Some (butlast part)) [] parts
      else
        parse_parts info current_key
          (if current_key \<noteq> None \<and> current_key \<noteq> Some [] then current_value @ [part]
           else current_value)
          parts)"

definition parse_movie_info :: "string \<Rightarrow> (string \<rightharpoonup> string)" where
  "parse_movie_info combined_info = parse_parts Map.empty None [] (py_split combined_info)"

text \<open>
  \<open>float(info.get("rating", 0))\<close>. Python's \<open>float\<close> on a text is a parameter \<open>to_float\<close>,
  \<open>None\<close> where it raises \<open>ValueError\<close>; the message quotes the text. A missing key gives
  \<open>float(0)\<close>. Floats are modelled by the rationals they denote.
\<close>

definition float_of_rating :: "(string \<Rightarrow> rat option) \<Rightarrow> string option \<Rightarrow> exn + rat" where
  "float_of_rating to_float v =
     (case v of
        None \<Rightarrow> Inr 0
      | Some s \<Rightarrow>
          (case to_float s of
             None \<Rightarrow> Inl (ValueError (''could not convert string to float: '' @ [CHR 0x27] @ s @ [CHR 0x27]))
           | Some x \<Rightarrow> Inr x))"

text \<open>\<open>info.get(key, "Unknown")\<close>.\<close>

definition get_or_unknown :: "(string \<rightharpoonup> string) \<Rightarrow> string \<Rightarrow> string" where
  "get_or_unknown info k = (case info k of None \<Rightarrow> ''Unknown'' | Some v \<Rightarrow> v)"

text \<open>The dictionary appended for a document that passes the threshold.\<close>

definition rating_entry :: "(string \<rightharpoonup> string) \<Rightarrow> rat \<Rightarrow> rating_recommendation" where
  "rating_entry info x =
     \<lparr>title = get_or_unknown info ''title'',
      genre = get_or_unknown info ''genre'',
      rating = x,
      runtime = get_or_unknown info ''runtime'',
      certificate = get_or_unknown info ''certificate''\<rparr>"

text \<open>
  The loop of \<open>get_recommendations_by_rating\<close> over the retrieved documents; an exception
  of the conversion leaves the loop and the function.
\<close>

fun rating_loop ::
  "(string \<Rightarrow> rat option) \<Rightarrow> rat \<Rightarrow> rating_recommendation list \<Rightarrow> document list
     \<Rightarrow> exn + rating_recommendation list" where
  "rating_loop to_float min_rating recs [] = Inr recs"
| "rating_loop to_float min_rating recs (doc # docs) =
     (let info = parse_movie_info (page_content doc) in
      case float_of_rating to_float (info ''rating'') of
        Inl e \<Rightarrow> Inl e
      | Inr x \<Rightarrow>
          if x \<ge> min_rating then
            rating_loop to_float min_rating (recs @ [rating_entry info x]) docs
          else rating_loop to_float min_rating recs docs)"

text \<open>
  \<open>get_recommendations_by_rating\<close>; \<open>float_str\<close> is Python's \<open>str\<close> on a float, used for
  the query text.
\<close>

definition get_recommendations_by_rating ::
  "searcher \<Rightarrow> (string \<Rightarrow> rat option) \<Rightarrow> (rat \<Rightarrow> string) \<Rightarrow> recommender \<Rightarrow> rat \<Rightarrow> nat
     \<Rightarrow> exn + rating_recommendation list" where
  "get_recommendations_by_rating search to_float float_str r min_rating limit =
     (case get_similar_movies search r
             (''movies with rating '' @ float_str min_rating @ '' or higher'') limit of
        Inl e \<Rightarrow> Inl e
      | Inr docs \<Rightarrow> rating_loop to_float min_rating [] docs)"

subsection \<open>Library functions for concrete inputs\<close>

text \<open>
  A reading of decimal numerals for concrete inputs: digits, optionally a point and more
  digits, at least one digit in all. On these texts it gives the number Python's \<open>float\<close>
  denotes, and on a text with any other character (a word such as \<open>Unknown\<close>, a text with a
  blank) it gives \<open>None\<close>, where \<open>float\<close> raises. Signs, exponents, \<open>inf\<close> and \<open>nan\<close>, which
  \<open>float\<close> also reads, do not occur in the inputs used here.
\<close>

definition digit_of :: "char \<Rightarrow> nat option" where
  "digit_of c =
     (if c \<in> set ''0123456789'' then Some (of_char c - 48) else None)"

fun digits_value :: "nat \<Rightarrow> string \<Rightarrow> nat option" where
  "digits_value acc [] = Some acc"
| "digits_value acc (c # cs) =
     (case digit_of c of None \<Rightarrow> None | Some d \<Rightarrow> digits_value (10 * acc + d) cs)"

definition decimal_float :: "string \<Rightarrow> rat option" where
  "decimal_float s =
     (let ip = takeWhile (\<lambda>c. c \<noteq> CHR ''.'') s;
          fp = drop 1 (dropWhile (\<lambda>c. c \<noteq> CHR ''.'') s)
      in if ip = [] \<and> fp = [] then None
         else (case (digits_value 0 ip, digits_value 0 fp) of
                 (Some i, Some f) \<Rightarrow> Some (of_nat i + of_nat f / of_nat (10 ^ length fp))
               | _ \<Rightarrow> None))"

text \<open>
  What \<open>get_recommendations_by_rating\<close> returns for one document when no conversion
  raises, written out from the claim: a missing rating counts as 0, a rating below the
  threshold drops the document.
\<close>

definition entries_of_doc :: "(string \<Rightarrow> rat option) \<Rightarrow> rat \<Rightarrow> document \<Rightarrow> rating_recommendation list" where
  "entries_of_doc to_float min_rating doc =
     (let info = parse_movie_info (page_content doc) in
      case info ''rating'' of
        None \<Rightarrow> if 0 \<ge> min_rating then [rating_entry info 0] else []
      | Some v \<Rightarrow>
          (case to_float v of
             None \<Rightarrow> []
           | Some x \<Rightarrow> if x \<ge> min_rating then [rating_entry info x] else []))"

text \<open>The rating field of a document is absent or a text \<open>to_float\<close> reads.\<close>

definition rating_readable :: "(string \<Rightarrow> rat option) \<Rightarrow> document \<Rightarrow> bool" where
  "rating_readable to_float doc =
     (case parse_movie_info (page_content doc) ''rating'' of
        None \<Rightarrow> True
      | Some v \<Rightarrow> to_float v \<noteq> None)"

text \<open>
  Python's \<open>str\<close> on the three numbers of the concrete inputs, 8.5, 8.0 and 0.0; no other
  number is rendered there.
\<close>

definition example_num_str :: "rat \<Rightarrow> string" where
  "example_num_str x = (if x = 17 / 2 then ''8.5'' else if x = 8 then ''8.0'' else ''0.0'')"

text \<open>A search for concrete inputs: the first \<open>k\<close> entries of the store, whatever the query.\<close>

definition first_k :: searcher where
  "first_k st q k = Inr (take k (collection_entries st))"

text \<open>A store and an initialised recommender for concrete inputs.\<close>

definition example_store :: "string list \<Rightarrow> chroma" where
  "example_store texts =
     \<lparr>collection_name = ''langchain'',
      collection_entries = map (\<lambda>t. \<lparr>page_content = t, metadata = []\<rparr>) texts,
      collection_metadata = None,
      embedding_function = HuggingFaceEmbeddings ''sentence-transformers/all-MiniLM-L6-v2''\<rparr>"

definition example_recommender :: "string list \<Rightarrow> response \<Rightarrow> recommender" where
  "example_recommender texts response =
     \<lparr>model_name = ''gpt-3.5-turbo'', r_vector_store = Some (example_store texts),
      retrieval_chain = Some (\<lambda>q. Inr response)\<rparr>"

section \<open>The data loader (\<open>data/data_loader.py\<close>)\<close>

subsection \<open>Data\<close>

text \<open>
  A cell of a pandas table: missing (\<open>NaN\<close>), a text or a number. Numbers are modelled by
  the rationals they denote.
\<close>

datatype cell = NaN | Str string | Num rat

text \<open>
  A \<open>DataFrame\<close>: its column names in order and its rows; a row gives the cell of a column
  by name, as \<open>row[col]\<close> does. A column (a \<open>Series\<close>) is a list of cells.
\<close>

record table =
  columns :: "string list"
  table_rows :: "(string \<Rightarrow> cell) list"

text \<open>
  \<open>str\<close> of a cell; \<open>str\<close> of a number is library code and a parameter. \<open>astype(str)\<close>
  gives the same texts.
\<close>

definition cell_str :: "(rat \<Rightarrow> string) \<Rightarrow> cell \<Rightarrow> string" where
  "cell_str num_str c = (case c of NaN \<Rightarrow> ''nan'' | Str s \<Rightarrow> s | Num x \<Rightarrow> num_str x)"

text \<open>\<open>str.strip()\<close>.\<close>

definition py_strip :: "string \<Rightarrow> string" where
  "py_strip s = rev (dropWhile py_isspace (rev (dropWhile py_isspace s)))"

subsection \<open>Missing values and numeric columns\<close>

text \<open>
  \<open>Series.median()\<close>: the median of the numbers of the column, the missing cells skipped;
  there is none when the column has no number.
\<close>

definition median :: "rat list \<Rightarrow> rat option" where
  "median xs =
     (let ys = sort xs; n = length ys
      in if n = 0 then None
         else if odd n then Some (ys ! (n div 2))
         else Some ((ys ! (n div 2 - 1) + ys ! (n div 2)) / 2))"

definition numbers_of :: "cell list \<Rightarrow> rat list" where
  "numbers_of col = concat (map (\<lambda>c. case c of Num x \<Rightarrow> [x] | _ \<Rightarrow> []) col)"

definition series_median :: "cell list \<Rightarrow> rat option" where
  "series_median col = median (numbers_of col)"

text \<open>
  \<open>col.fillna(col.median())\<close>: the missing cells become the median; filling with a missing
  median changes nothing.
\<close>

definition fillna_median :: "cell list \<Rightarrow> cell list" where
  "fillna_median col =
     (case series_median col of
        None \<Rightarrow> col
      | Some m \<Rightarrow> map (\<lambda>c. if c = NaN then Num m else c) col)"

text \<open>
  \<open>_handle_missing_values\<close> on one column: a column of dtype \<open>object\<close> (one with a text) is
  filled with \<open>'Unknown'\<close>, a numeric column (no text) with its median.
\<close>

definition is_numeric_column :: "cell list \<Rightarrow> bool" where
  "is_numeric_column col = list_all (\<lambda>c. case c of Str s \<Rightarrow> False | _ \<Rightarrow> True) col"

definition handle_missing_values :: "cell list \<Rightarrow> cell list" where
  "handle_missing_values col =
     (if is_numeric_column col then fillna_median col
      else map (\<lambda>c. if c = NaN then Str ''Unknown'' else c) col)"

text \<open>
  \<open>pd.to_numeric(col, errors='coerce')\<close>: a text becomes the number it reads as, or
  missing. The reading of a text as a number is a parameter.
\<close>

definition to_numeric :: "(string \<Rightarrow> rat option) \<Rightarrow> cell list \<Rightarrow> cell list" where
  "to_numeric to_float col =
     map (\<lambda>c. case c of
                 Str s \<Rightarrow> (case to_float s of None \<Rightarrow> NaN | Some x \<Rightarrow> Num x)
               | _ \<Rightarrow> c) col"

subsection \<open>Cleaning texts\<close>

text \<open>
  The character classes of the two regular expressions of \<open>_clean_text\<close>, on ASCII: \<open>\w\<close>
  is a letter, a digit or the underscore. A byte outside ASCII is kept, as the letters of
  other alphabets are.
\<close>

definition is_word :: "char \<Rightarrow> bool" where
  "is_word c \<longleftrightarrow>
     (let n = (of_char c :: nat)
      in (48 \<le> n \<and> n \<le> 57) \<or> (65 \<le> n \<and> n \<le> 90) \<or> n = 95 \<or> (97 \<le> n \<and> n \<le> 122) \<or> 128 \<le> n)"

definition keep_char :: "char \<Rightarrow> bool" where
  "keep_char c \<longleftrightarrow> is_word c \<or> py_isspace c \<or> c \<in> set ''-.,!?''"

text \<open>\<open>re.sub(r'\s+', ' ', text)\<close>: every maximal run of whitespace becomes one blank.\<close>

function collapse_ws :: "string \<Rightarrow> string" where
  "collapse_ws [] = []"
| "collapse_ws (c # cs) =
     (if py_isspace c then CHR '' '' # collapse_ws (dropWhile py_isspace cs)
      else c # collapse_ws cs)"
  by pat_completeness auto
termination
  by (relation "measure length") (auto simp add: less_Suc_eq_le length_dropWhile_le)

text \<open>\<open>str.lower()\<close> on one ASCII character.\<close>

definition py_lower :: "char \<Rightarrow> char" where
  "py_lower c =
     (case map_of (zip ''ABCDEFGHIJKLMNOPQRSTUVWXYZ'' ''abcdefghijklmnopqrstuvwxyz'') c of
        None \<Rightarrow> c
      | Some l \<Rightarrow> l)"

definition clean_text :: "string \<Rightarrow> string" where
  "clean_text text0 =
     (if text0 = ''nan'' then ''Unknown''
      else (let t1 = filter keep_char text0;
                t2 = py_strip (collapse_ws t1);
                t3 = map py_lower t2
            in if t3 = [] then ''Unknown'' else t3))"

text \<open>\<open>_clean_text_columns\<close> on one column: \<open>astype(str)\<close>, then \<open>_clean_text\<close> on every cell.\<close>

definition clean_text_column :: "(rat \<Rightarrow> string) \<Rightarrow> cell list \<Rightarrow> cell list" where
  "clean_text_column num_str col = map (\<lambda>c. Str (clean_text (cell_str num_str c))) col"

subsection \<open>Numerical features\<close>

text \<open>
  \<open>str.extract(r'\((\d{4})\)')\<close> on one text: the four digits of the first place where an
  opening parenthesis, four digits and a closing parenthesis follow one another.
\<close>

definition is_digit :: "char \<Rightarrow> bool" where
  "is_digit c \<longleftrightarrow> c \<in> set ''0123456789''"

fun extract_year :: "string \<Rightarrow> string option" where
  "extract_year [] = None"
| "extract_year (c # cs) =
     (if c = CHR ''('' \<and> 5 \<le> length cs \<and> list_all is_digit (take 4 cs) \<and> cs ! 4 = CHR '')''
      then Some (take 4 cs)
      else extract_year cs)"

definition str_extract_year :: "cell list \<Rightarrow> cell list" where
  "str_extract_year col =
     map (\<lambda>c. case c of
                 Str s \<Rightarrow> (case extract_year s of None \<Rightarrow> NaN | Some y \<Rightarrow> Str y)
               | _ \<Rightarrow> NaN) col"

text \<open>
  \<open>_extract_numerical_features\<close>: the \<open>year\<close> column from the \<open>title\<close> column, and the
  treatment of the \<open>rating\<close> and \<open>votes\<close> columns.
\<close>

definition year_column :: "(string \<Rightarrow> rat option) \<Rightarrow> cell list \<Rightarrow> cell list" where
  "year_column to_float title_col = fillna_median (to_numeric to_float (str_extract_year title_col))"

definition numeric_column :: "(string \<Rightarrow> rat option) \<Rightarrow> cell list \<Rightarrow> cell list" where
  "numeric_column to_float col = fillna_median (to_numeric to_float col)"

text \<open>
  The columns as \<open>clean_data\<close> produces them from the raw ones, in the order of its steps:
  \<open>_handle_missing_values\<close>, \<open>_clean_text_columns\<close> (which touches \<open>title\<close>, not \<open>rating\<close>),
  \<open>_extract_numerical_features\<close>.
\<close>

definition cleaned_year :: "(string \<Rightarrow> rat option) \<Rightarrow> (rat \<Rightarrow> string) \<Rightarrow> cell list \<Rightarrow> cell list" where
  "cleaned_year to_float num_str raw_title =
     year_column to_float (clean_text_column num_str (handle_missing_values raw_title))"

definition cleaned_rating :: "(string \<Rightarrow> rat option) \<Rightarrow> cell list \<Rightarrow> cell list" where
  "cleaned_rating to_float raw_rating = numeric_column to_float (handle_missing_values raw_rating)"

subsection \<open>The combined text\<close>

text \<open>\<open>df[col] = df.apply(f, axis=1)\<close>: a new column goes last, an old one keeps its place.\<close>

definition apply_rows :: "string \<Rightarrow> ((string \<Rightarrow> cell) \<Rightarrow> cell) \<Rightarrow> table \<Rightarrow> table" where
  "apply_rows col f t =
     \<lparr>columns = (if col \<in> set (columns t) then columns t else columns t @ [col]),
      table_rows = map (\<lambda>row. row(col := f row)) (table_rows t)\<rparr>"

text \<open>The lambda of \<open>_create_combined_info_column\<close> on one row.\<close>

definition combined_info_text :: "(rat \<Rightarrow> string) \<Rightarrow> string list \<Rightarrow> (string \<Rightarrow> cell) \<Rightarrow> string" where
  "combined_info_text num_str columns_to_combine row =
     join_sp (map (\<lambda>col. col @ '': '' @ cell_str num_str (row col))
                (filter (\<lambda>col. row col \<noteq> NaN \<and> py_strip (cell_str num_str (row col)) \<noteq> [])
                   columns_to_combine))"

definition create_combined_info_column :: "(rat \<Rightarrow> string) \<Rightarrow> table \<Rightarrow> table" where
  "create_combined_info_column num_str t =
     (let columns_to_combine = filter (\<lambda>col. col \<noteq> ''combined_info'') (columns t)
      in apply_rows ''combined_info''
           (\<lambda>row. Str (combined_info_text num_str columns_to_combine row)) t)"

subsection \<open>Duplicates\<close>







text \<open>Rows for concrete inputs: the cells listed, and missing cells elsewhere.\<close>

definition example_row :: "(string \<times> cell) list \<Rightarrow> string \<Rightarrow> cell" where
  "example_row cells col = (case map_of cells col of None \<Rightarrow> NaN | Some c \<Rightarrow> c)"

section \<open>Properties of the vector store manager\<close>

lemmas vs_defs = build_vector_store_def build_new_vector_store_def load_existing_vector_store_def
  load_csv_data_def chunk_documents_def get_text_splitter_def create_text_splitter_def
  create_documents_def row_document_def split_documents_def create_vector_store_def
  get_embeddings_def initialize_embeddings_def from_documents_def open_chroma_def
  remove_directory_def get_collection_info_def init_vector_store_def Let_def

subsection \<open>The embedder\<close>

lemma get_embeddings_persist_dir:
  "get_embeddings (s\<lparr>persist_dir := p\<rparr>) =
     (fst (get_embeddings s), (snd (get_embeddings s))\<lparr>persist_dir := p\<rparr>)"
  by (simp add: get_embeddings_def initialize_embeddings_def Let_def split: option.splits)

lemma get_embeddings_frame:
  "persist_dir (snd (get_embeddings s)) = persist_dir s"
  "csv_file (snd (get_embeddings s)) = csv_file s"
  "csv_path (snd (get_embeddings s)) = csv_path s"
  "text_splitter (snd (get_embeddings s)) = text_splitter s"
  "chunk_size (snd (get_embeddings s)) = chunk_size s"
  "chunk_overlap (snd (get_embeddings s)) = chunk_overlap s"
  "vector_store (snd (get_embeddings s)) = vector_store s"
  "persist_directory (snd (get_embeddings s)) = persist_directory s"
  "chroma_client (snd (get_embeddings s)) = chroma_client s"
  by (simp_all add: get_embeddings_def initialize_embeddings_def Let_def split: option.splits)

lemma get_embeddings_available:
  "emb_available s \<Longrightarrow>
     \<exists>e. fst (get_embeddings s) = Inr e \<and> embeddings (snd (get_embeddings s)) = Some e"
  by (auto simp add: emb_available_def get_embeddings_def initialize_embeddings_def Let_def
           split: option.splits)

lemma emb_available_after:
  "emb_available s \<Longrightarrow> emb_available (snd (get_embeddings s))"
  using get_embeddings_available[of s] by (auto simp add: emb_available_def)

lemma emb_available_frame:
  "emb_available (s\<lparr>persist_dir := p\<rparr>) = emb_available s"
  "emb_available (s\<lparr>text_splitter := c\<rparr>) = emb_available s"
  "emb_available (s\<lparr>chroma_client := k\<rparr>) = emb_available s"
  "emb_available (remove_directory s) = emb_available s"
  by (simp_all add: emb_available_def remove_directory_def)

subsection \<open>The text splitter\<close>

lemma window_split_short:
  "t \<noteq> [] \<Longrightarrow> length t \<le> csz \<Longrightarrow> window_split csz cov t = [t]"
  by (subst window_split.simps) simp



lemma get_text_splitter_available:
  "splitter_available s \<Longrightarrow>
     get_text_splitter s =
       (Inr (splitter_settings s), s\<lparr>text_splitter := Some (splitter_settings s)\<rparr>)"
  by (auto simp add: splitter_available_def splitter_settings_def get_text_splitter_def
        create_text_splitter_def split: option.splits)

lemma splitter_frame:
  "splitter_available (s\<lparr>persist_dir := p\<rparr>) = splitter_available s"
  "splitter_available (remove_directory s) = splitter_available s"
  "splitter_available (snd (get_embeddings s)) = splitter_available s"
  "splitter_settings (s\<lparr>persist_dir := p\<rparr>) = splitter_settings s"
  "splitter_settings (remove_directory s) = splitter_settings s"
  "splitter_settings (snd (get_embeddings s)) = splitter_settings s"
  by (simp_all add: splitter_available_def splitter_settings_def remove_directory_def
        get_embeddings_frame split: option.splits)


subsection \<open>Creating the store\<close>

lemma create_vector_store_result:
  assumes "emb_available s"
  shows "\<exists>emb. fst (get_embeddings s) = Inr emb
          \<and> create_vector_store documents s =
              (case from_documents documents emb (snd (get_embeddings s)) of
                 (Inl e, s2) \<Rightarrow> (Inl e, s2)
               | (Inr st, s2) \<Rightarrow> (Inr st, s2\<lparr>vector_store := Some st\<rparr>))"
proof -
  obtain emb where e: "fst (get_embeddings s) = Inr emb"
    using get_embeddings_available[OF assms] by blast
  obtain r s1 where g: "get_embeddings s = (r, s1)" by (cases "get_embeddings s")
  with e show ?thesis by (simp add: create_vector_store_def)
qed


lemma create_vector_store_unusable_client:
  assumes "emb_available s"
  shows "chroma_client s = ClientStale \<Longrightarrow>
           fst (create_vector_store documents s) = Inl stale_client_error"
    and "chroma_client s = ClientBroken \<Longrightarrow>
           fst (create_vector_store documents s) = Inl broken_client_error"
proof -
  obtain emb where c: "create_vector_store documents s =
              (case from_documents documents emb (snd (get_embeddings s)) of
                 (Inl e, s2) \<Rightarrow> (Inl e, s2)
               | (Inr st, s2) \<Rightarrow> (Inr st, s2\<lparr>vector_store := Some st\<rparr>))"
    using create_vector_store_result[OF assms(1)] by blast
  show "chroma_client s = ClientStale \<Longrightarrow>
           fst (create_vector_store documents s) = Inl stale_client_error"
    unfolding c by (simp add: from_documents_def get_embeddings_frame)
  show "chroma_client s = ClientBroken \<Longrightarrow>
           fst (create_vector_store documents s) = Inl broken_client_error"
    unfolding c by (simp add: from_documents_def get_embeddings_frame)
qed

subsection \<open>The rebuild\<close>

text \<open>
  Up to the creation of the store: with a readable CSV and an available splitter the
  rebuild is \<open>create_vector_store\<close> on the chunks, in the state with the directory removed.
\<close>

lemma build_new_reaches_create:
  assumes csv: "csv_file s = CsvTable rows" and spl: "splitter_available s"
  shows "build_new_vector_store split s =
           create_vector_store
             (split_documents split (splitter_settings s) (create_documents rows))
             ((if persist_dir s \<noteq> DirMissing then remove_directory s else s)
                \<lparr>text_splitter := Some (splitter_settings s)\<rparr>)"
proof -
  define s1 where "s1 = (if persist_dir s \<noteq> DirMissing then remove_directory s else s)"
  have l: "load_csv_data s1 = Inr rows"
    using csv by (simp add: s1_def load_csv_data_def remove_directory_def)
  have a: "splitter_available s1" "splitter_settings s1 = splitter_settings s"
    using spl by (simp_all add: s1_def splitter_frame)
  have c: "chunk_documents split (create_documents rows) s1 =
             (Inr (split_documents split (splitter_settings s) (create_documents rows)),
              s1\<lparr>text_splitter := Some (splitter_settings s)\<rparr>)"
    using get_text_splitter_available[OF a(1)] a(2) by (simp add: chunk_documents_def)
  show ?thesis
    using l c by (simp add: build_new_vector_store_def s1_def[symmetric] Let_def)
qed


text \<open>
  The two ways the rebuild raises although the CSV is readable: the process holds a
  client on the directory the rebuild removes, or the splitter cannot be constructed.
\<close>

lemma build_new_under_open_client_raises:
  assumes csv: "csv_file s = CsvTable rows" and emb: "emb_available s"
    and spl: "splitter_available s" and cl: "chroma_client s = ClientOpen"
    and dir: "persist_dir s \<noteq> DirMissing"
  shows "fst (build_new_vector_store split s) = Inl stale_client_error"
proof -
  let ?s2 = "(remove_directory s)\<lparr>text_splitter := Some (splitter_settings s)\<rparr>"
  have a2: "emb_available ?s2"
    using emb by (simp add: emb_available_frame)
  have c2: "chroma_client ?s2 = ClientStale"
    using cl by (simp add: remove_directory_def)
  show ?thesis
    unfolding build_new_reaches_create[OF csv spl]
    using create_vector_store_unusable_client(1)[OF a2 c2] dir by simp
qed

lemma build_new_overlap_above_size_raises:
  assumes csv: "csv_file s = CsvTable rows" and "text_splitter s = None"
    and "0 < chunk_size s" and "chunk_size s < chunk_overlap s"
  shows "fst (build_new_vector_store split s) =
           Inl (ValueError ''Got a larger chunk overlap than chunk size, should be smaller.'')"
  using assms
  by (simp add: build_new_vector_store_def load_csv_data_def remove_directory_def
        chunk_documents_def get_text_splitter_def create_text_splitter_def Let_def)


subsection \<open>Forced rebuild\<close>




text \<open>
  Outside the hypotheses of the theorem the forced rebuild raises: when the manager's
  process holds the store open (a second forced rebuild, or one after a load), and when
  the overlap is above the chunk size.
\<close>

lemma force_rebuild_with_open_store_raises:
  assumes "csv_file s = CsvTable rows" and "emb_available s" and "splitter_available s"
    and "chroma_client s = ClientOpen" and "persist_dir s \<noteq> DirMissing"
  shows "fst (build_vector_store split True inc s) = Inl stale_client_error"
  using build_new_under_open_client_raises[OF assms] by (simp add: build_vector_store_def)

lemma second_force_rebuild_example:
  "fst (build_vector_store window_split True False
          (snd (build_vector_store window_split True False
                  (default_manager None (CsvTable [Some ''title: heat'']) DirMissing))))
     = Inl stale_client_error"
  by (simp add: vs_defs default_manager_def window_split_short)

subsection \<open>A directory that cannot be loaded\<close>

text \<open>The exception of the failed open is caught: the load answers \<open>None\<close>.\<close>

lemma load_failure_is_caught:
  "fst (load_existing_vector_store (s\<lparr>persist_dir := DirCorrupt e\<rparr>)) = None"
  by (simp add: load_existing_vector_store_def open_chroma_def get_embeddings_def
        initialize_embeddings_def Let_def split: option.splits client.splits)

text \<open>
  But the failed open leaves the process's client broken, and the rebuild that follows
  raises through it when it creates the store.
\<close>

lemma rebuild_after_load_failure_raises:
  assumes csv: "csv_file s = CsvTable rows" and emb: "emb_available s"
    and spl: "splitter_available s" and cl: "chroma_client s = NoClient"
  shows "fst (build_vector_store split False inc (s\<lparr>persist_dir := DirCorrupt e\<rparr>))
           = Inl broken_client_error"
proof -
  let ?g = "snd (get_embeddings s)"
  obtain emb0 where g: "fst (get_embeddings s) = Inr emb0"
    using get_embeddings_available[OF emb] by blast
  have ge: "get_embeddings (s\<lparr>persist_dir := DirCorrupt e\<rparr>) =
              (Inr emb0, ?g\<lparr>persist_dir := DirCorrupt e\<rparr>)"
    using g by (simp add: get_embeddings_persist_dir)
  have l: "load_existing_vector_store (s\<lparr>persist_dir := DirCorrupt e\<rparr>) =
             (None, ?g\<lparr>persist_dir := DirCorrupt e, chroma_client := ClientBroken\<rparr>)"
    using cl by (simp add: load_existing_vector_store_def ge open_chroma_def get_embeddings_frame)
  let ?s1 = "?g\<lparr>persist_dir := DirCorrupt e, chroma_client := ClientBroken\<rparr>"
  have 1: "csv_file ?s1 = CsvTable rows" using csv by (simp add: get_embeddings_frame)
  have 2: "splitter_available ?s1"
    using spl by (simp add: splitter_available_def get_embeddings_frame)
  let ?s2 = "(if persist_dir ?s1 \<noteq> DirMissing then remove_directory ?s1 else ?s1)
               \<lparr>text_splitter := Some (splitter_settings ?s1)\<rparr>"
  have a2: "emb_available ?s2"
    using emb_available_after[OF emb] by (simp add: emb_available_frame emb_available_def remove_directory_def)
  have c2: "chroma_client ?s2 = ClientBroken"
    by (simp add: remove_directory_def)
  show ?thesis
    unfolding build_vector_store_def l
    using create_vector_store_unusable_client(2)[OF a2 c2]
    by (simp add: build_new_reaches_create[OF 1 2])
qed

text \<open>
  Claim C2 at a concrete input: the default manager, a CSV of one row, a persist directory
  on which opening raises. The load failure is caught, but the build does not complete by
  a rebuild: it raises the exception of the broken client. On an empty directory the same
  build succeeds.
\<close>

theorem corrupt_index_rebuild_raises:
  "fst (load_existing_vector_store
          ((default_manager None (CsvTable [Some ''title: heat'']) DirEmpty)
             \<lparr>persist_dir := DirCorrupt (LibraryError ''file is not a database'')\<rparr>)) = None
   \<and> fst (build_vector_store window_split False False
          ((default_manager None (CsvTable [Some ''title: heat'']) DirEmpty)
             \<lparr>persist_dir := DirCorrupt (LibraryError ''file is not a database'')\<rparr>))
     = Inl broken_client_error
   \<and> map_sum id (\<lambda>st. map page_content (collection_entries st))
        (fst (build_vector_store window_split False False
          (default_manager None (CsvTable [Some ''title: heat'']) DirEmpty)))
     = Inr [''title: heat'']"
  by (simp add: vs_defs default_manager_def window_split_short)

subsection \<open>The incremental branch\<close>

text \<open>
  Claim C9. Whenever \<open>load_existing_vector_store\<close> returns a store, \<open>build_vector_store\<close>
  with \<open>force_rebuild=False\<close> and \<open>incremental_update=True\<close> raises the \<open>AttributeError\<close> of
  the call to the undefined method \<open>_incremental_update\<close>; it returns no store.
\<close>

theorem incremental_update_raises:
  assumes "fst (load_existing_vector_store s) = Some st"
  shows "fst (build_vector_store split False True s) =
           Inl (AttributeError
                  (CHR 0x27 # ''AnimeVectorStore'' @ CHR 0x27 # '' object has no attribute '' @
                   CHR 0x27 # ''_incremental_update'' @ [CHR 0x27]))"
  using assms
  by (cases "load_existing_vector_store s") (simp add: build_vector_store_def)

theorem incremental_update_raises_witness:
  "fst (load_existing_vector_store
          (default_manager None (CsvTable [Some ''title: heat''])
             (DirIndex ''langchain'' [\<lparr>page_content = ''title: heat'', metadata = []\<rparr>] None)))
     = Some \<lparr>collection_name = ''langchain'',
             collection_entries = [\<lparr>page_content = ''title: heat'', metadata = []\<rparr>],
             collection_metadata = None,
             embedding_function = HuggingFaceEmbeddings ''sentence-transformers/all-MiniLM-L6-v2''\<rparr>
   \<and> fst (build_vector_store window_split False True
          (default_manager None (CsvTable [Some ''title: heat''])
             (DirIndex ''langchain'' [\<lparr>page_content = ''title: heat'', metadata = []\<rparr>] None)))
     = Inl (AttributeError
              (CHR 0x27 # ''AnimeVectorStore'' @ CHR 0x27 # '' object has no attribute '' @
               CHR 0x27 # ''_incremental_update'' @ [CHR 0x27]))"
proof -
  let ?s = "default_manager None (CsvTable [Some ''title: heat''])
             (DirIndex ''langchain'' [\<lparr>page_content = ''title: heat'', metadata = []\<rparr>] None)"
  have 1: "fst (load_existing_vector_store ?s)
     = Some \<lparr>collection_name = ''langchain'',
             collection_entries = [\<lparr>page_content = ''title: heat'', metadata = []\<rparr>],
             collection_metadata = None,
             embedding_function = HuggingFaceEmbeddings ''sentence-transformers/all-MiniLM-L6-v2''\<rparr>"
    by (simp add: default_manager_def vs_defs)
  show ?thesis
    using incremental_update_raises[OF 1, of window_split] 1 by simp
qed

subsection \<open>The reported embedding dimension\<close>

text \<open>
  The entry \<open>embedding_dimension\<close> never depends on the embedder: for a collection without
  metadata, as \<open>create_vector_store\<close> makes them, it is the string \<open>unknown\<close>.
\<close>

lemma embedding_dimension_unknown:
  assumes "vector_store s = Some st" and "collection_metadata st = None"
  shows "map_sum id embedding_dimension (get_collection_info s) = Inr (MStr ''unknown'')"
  using assms by (simp add: get_collection_info_def)

text \<open>
  Claim C6 at a concrete input: the default manager, no OpenAI key, a CSV of one row. The
  build succeeds with the HuggingFace embedder in place of the OpenAI one, and
  \<open>get_collection_info\<close> then reports \<open>unknown\<close> under \<open>embedding_dimension\<close>, not the
  dimension of that embedder.
\<close>

theorem fallback_embedder_dimension_unknown:
  "embedding_model (snd (build_vector_store window_split True False
        (default_manager None (CsvTable [Some ''title: heat'']) DirMissing))) = ''huggingface''
   \<and> embeddings (snd (build_vector_store window_split True False
        (default_manager None (CsvTable [Some ''title: heat'']) DirMissing)))
      = Some (HuggingFaceEmbeddings ''sentence-transformers/all-MiniLM-L6-v2'')
   \<and> map_sum id embedding_dimension
        (get_collection_info (snd (build_vector_store window_split True False
           (default_manager None (CsvTable [Some ''title: heat'']) DirMissing))))
      = Inr (MStr ''unknown'')"
  by (simp add: vs_defs default_manager_def window_split_short)

section \<open>Properties of the ingestion pipeline\<close>

text \<open>
  Claim C4. A run in which a stage raises stops at that stage: the results carry the status
  \<open>failed\<close>, the message of the exception as their only error and the names and statistics
  of the stages completed before; the overall status of the pipeline is \<open>failed\<close>; the
  flags of the stages completed before are \<open>True\<close> and the flag of the failing stage is
  \<open>False\<close>. The world is the one the failing stage left, so no later stage has run, and
  nothing the earlier stages did is undone. The three conjuncts are the three stages.
\<close>

theorem pipeline_failure_aborts_without_rollback:
  "(data_body (world p) = (Inl e, w1) \<longrightarrow>
      run_complete_pipeline data_body vector_body recommender_body force_rebuild p =
        (\<lparr>pipeline_status = ''failed'', steps_completed = [], errors = [exn_str e],
          statistics = []\<rparr>,
         p\<lparr>world := w1, data_loading := False, overall_status := ''failed''\<rparr>))
   \<and> (data_body (world p) = (Inr d, w1) \<and> vector_body force_rebuild w1 = (Inl e, w2) \<longrightarrow>
      run_complete_pipeline data_body vector_body recommender_body force_rebuild p =
        (\<lparr>pipeline_status = ''failed'', steps_completed = [''data_loading''],
          errors = [exn_str e], statistics = [(''data_loading'', d)]\<rparr>,
         p\<lparr>world := w2, data_loading := True, vector_store_creation := False,
           overall_status := ''failed''\<rparr>))
   \<and> (data_body (world p) = (Inr d, w1) \<and> vector_body force_rebuild w1 = (Inr v, w2)
        \<and> recommender_body w2 = (Inl e, w3) \<longrightarrow>
      run_complete_pipeline data_body vector_body recommender_body force_rebuild p =
        (\<lparr>pipeline_status = ''failed'',
          steps_completed = [''data_loading'', ''vector_store_creation''],
          errors = [exn_str e],
          statistics = [(''data_loading'', d), (''vector_store'', v)]\<rparr>,
         p\<lparr>world := w3, data_loading := True, vector_store_creation := True,
           recommender_initialization := False, overall_status := ''failed''\<rparr>))"
  by (simp add: run_complete_pipeline_def run_data_loading_step_def run_vector_store_step_def
        run_recommender_step_def pipeline_failed_def Let_def)

text \<open>
  The theorem on a fresh pipeline whose stages log their names: a failure in the first, in
  the second and in the third stage. The log shows which stages ran.
\<close>

theorem pipeline_failure_aborts_without_rollback_witness:
  "run_complete_pipeline (logging_stage ''data'' (Inl (FileNotFoundError ''no file'')))
       (\<lambda>f. logging_stage ''vector'' (Inr 2)) (logging_stage ''recommender'' (Inr 3)) False
       (init_pipeline [])
     = (\<lparr>pipeline_status = ''failed'', steps_completed = [], errors = [''no file''],
         statistics = []\<rparr>,
        \<lparr>data_loading = False, vector_store_creation = False,
         recommender_initialization = False, overall_status = ''failed'',
         world = [''data'']\<rparr>)
   \<and> run_complete_pipeline (logging_stage ''data'' (Inr 1))
       (\<lambda>f. logging_stage ''vector'' (Inl (ValueError ''bad store'')))
       (logging_stage ''recommender'' (Inr 3)) True (init_pipeline [])
     = (\<lparr>pipeline_status = ''failed'', steps_completed = [''data_loading''],
         errors = [''bad store''], statistics = [(''data_loading'', 1)]\<rparr>,
        \<lparr>data_loading = True, vector_store_creation = False,
         recommender_initialization = False, overall_status = ''failed'',
         world = [''data'', ''vector'']\<rparr>)
   \<and> run_complete_pipeline (logging_stage ''data'' (Inr 1))
       (\<lambda>f. logging_stage ''vector'' (Inr 2))
       (logging_stage ''recommender'' (Inl (ValueError ''no key''))) False (init_pipeline [])
     = (\<lparr>pipeline_status = ''failed'',
         steps_completed = [''data_loading'', ''vector_store_creation''],
         errors = [''no key''], statistics = [(''data_loading'', 1), (''vector_store'', 2)]\<rparr>,
        \<lparr>data_loading = True, vector_store_creation = True,
         recommender_initialization = False, overall_status = ''failed'',
         world = [''data'', ''vector'', ''recommender'']\<rparr>)"
proof -
  let ?p = "init_pipeline ([] :: string list)"
  have a: "logging_stage ''data'' (Inl (FileNotFoundError ''no file'')) (world ?p)
             = (Inl (FileNotFoundError ''no file''), [''data''])"
    by (simp add: logging_stage_def init_pipeline_def)
  have b: "logging_stage ''data'' (Inr 1) (world ?p) = (Inr 1, [''data''])"
    by (simp add: logging_stage_def init_pipeline_def)
  have c: "logging_stage ''vector'' (Inl (ValueError ''bad store'')) [''data'']
             = (Inl (ValueError ''bad store''), [''data'', ''vector''])"
    by (simp add: logging_stage_def)
  have d: "logging_stage ''vector'' (Inr 2) [''data''] = (Inr 2, [''data'', ''vector''])"
    by (simp add: logging_stage_def)
  have e: "logging_stage ''recommender'' (Inl (ValueError ''no key'')) [''data'', ''vector'']
             = (Inl (ValueError ''no key''), [''data'', ''vector'', ''recommender''])"
    by (simp add: logging_stage_def)
  have 1: "run_complete_pipeline (logging_stage ''data'' (Inl (FileNotFoundError ''no file'')))
       (\<lambda>f. logging_stage ''vector'' (Inr 2)) (logging_stage ''recommender'' (Inr 3)) False ?p
     = (\<lparr>pipeline_status = ''failed'', steps_completed = [], errors = [''no file''],
         statistics = []\<rparr>,
        ?p\<lparr>world := [''data''], data_loading := False, overall_status := ''failed''\<rparr>)"
    using pipeline_failure_aborts_without_rollback[
        where data_body = "logging_stage ''data'' (Inl (FileNotFoundError ''no file''))"
        and p = ?p and e = "FileNotFoundError ''no file''" and ?w1.0 = "[''data'']"
        and vector_body = "\<lambda>f. logging_stage ''vector'' (Inr 2)"
        and recommender_body = "logging_stage ''recommender'' (Inr 3)"
        and force_rebuild = False] a
    by simp
  have 2: "run_complete_pipeline (logging_stage ''data'' (Inr 1))
       (\<lambda>f. logging_stage ''vector'' (Inl (ValueError ''bad store'')))
       (logging_stage ''recommender'' (Inr 3)) True ?p
     = (\<lparr>pipeline_status = ''failed'', steps_completed = [''data_loading''],
         errors = [''bad store''], statistics = [(''data_loading'', 1)]\<rparr>,
        ?p\<lparr>world := [''data'', ''vector''], data_loading := True,
           vector_store_creation := False, overall_status := ''failed''\<rparr>)"
    using pipeline_failure_aborts_without_rollback[
        where data_body = "logging_stage ''data'' (Inr 1)"
        and p = ?p and e = "ValueError ''bad store''" and ?w1.0 = "[''data'']" and d = 1
        and ?w2.0 = "[''data'', ''vector'']"
        and vector_body = "\<lambda>f. logging_stage ''vector'' (Inl (ValueError ''bad store''))"
        and recommender_body = "logging_stage ''recommender'' (Inr 3)"
        and force_rebuild = True] b c
    by simp
  have 3: "run_complete_pipeline (logging_stage ''data'' (Inr 1))
       (\<lambda>f. logging_stage ''vector'' (Inr 2))
       (logging_stage ''recommender'' (Inl (ValueError ''no key''))) False ?p
     = (\<lparr>pipeline_status = ''failed'',
         steps_completed = [''data_loading'', ''vector_store_creation''],
         errors = [''no key''], statistics = [(''data_loading'', 1), (''vector_store'', 2)]\<rparr>,
        ?p\<lparr>world := [''data'', ''vector'', ''recommender''], data_loading := True,
           vector_store_creation := True, recommender_initialization := False,
           overall_status := ''failed''\<rparr>)"
    using pipeline_failure_aborts_without_rollback[
        where data_body = "logging_stage ''data'' (Inr 1)"
        and p = ?p and e = "ValueError ''no key''" and ?w1.0 = "[''data'']" and d = 1
        and v = 2 and ?w2.0 = "[''data'', ''vector'']"
        and ?w3.0 = "[''data'', ''vector'', ''recommender'']"
        and vector_body = "\<lambda>f. logging_stage ''vector'' (Inr 2)"
        and recommender_body = "logging_stage ''recommender'' (Inl (ValueError ''no key''))"
        and force_rebuild = False] b d e
    by simp
  show ?thesis
    unfolding 1 2 3 by (simp add: init_pipeline_def)
qed

section \<open>Properties of the recommender\<close>

lemmas rec_defs = get_recommendations_by_rating_def get_similar_movies_def first_k_def
  example_recommender_def example_store_def parse_movie_info_def py_split_def py_isspace_def
  save_pair_def float_of_rating_def rating_entry_def get_or_unknown_def decimal_float_def
  digit_of_def example_num_str_def Let_def

subsection \<open>A response without an answer\<close>




subsection \<open>Recommendations by rating\<close>

lemma float_of_rating_error:
  "float_of_rating to_float v = Inl e \<Longrightarrow> \<exists>m. e = ValueError m"
  by (auto simp add: float_of_rating_def split: option.splits)

text \<open>One document whose rating text cannot be converted makes the whole loop raise.\<close>

lemma rating_loop_raises:
  assumes "d \<in> set docs" and "parse_movie_info (page_content d) ''rating'' = Some v"
    and "to_float v = None"
  shows "\<exists>m. rating_loop to_float min_rating recs docs = Inl (ValueError m)"
  using assms(1)
proof (induction docs arbitrary: recs)
  case Nil
  then show ?case by simp
next
  case (Cons doc docs)
  show ?case
  proof (cases "float_of_rating to_float (parse_movie_info (page_content doc) ''rating'')")
    case (Inl e)
    then show ?thesis
      using float_of_rating_error[OF Inl] by (auto simp add: Let_def)
  next
    case (Inr x)
    have "d \<noteq> doc"
      using Inr assms(2,3) by (auto simp add: float_of_rating_def)
    with Cons.prems have "d \<in> set docs" by simp
    then show ?thesis
      using Inr Cons.IH by (simp add: Let_def)
  qed
qed

lemma rating_loop_readable:
  assumes "\<And>d. d \<in> set docs \<Longrightarrow> rating_readable to_float d"
  shows "rating_loop to_float min_rating recs docs =
           Inr (recs @ concat (map (entries_of_doc to_float min_rating) docs))"
  using assms
proof (induction docs arbitrary: recs)
  case Nil
  then show ?case by simp
next
  case (Cons doc docs)
  have r: "rating_readable to_float doc" using Cons.prems by simp
  have t: "\<And>d. d \<in> set docs \<Longrightarrow> rating_readable to_float d" using Cons.prems by simp
  show ?case
    using r Cons.IH[OF t]
    by (auto simp add: rating_readable_def entries_of_doc_def float_of_rating_def Let_def
             split: option.splits)
qed

text \<open>
  Claim C10 as the code has it. Let the similarity search return \<open>docs\<close>. If the parsed
  rating of one of them is present and is not a numeral, \<open>get_recommendations_by_rating\<close>
  raises the \<open>ValueError\<close> of the conversion and returns nothing. If every parsed rating is
  absent or a numeral, it returns the entries of \<open>entries_of_doc\<close>: an absent rating counts
  as 0, so its document is dropped exactly when the threshold is above 0.
\<close>

theorem rating_conversion_unguarded:
  assumes "get_similar_movies search r
             (''movies with rating '' @ float_str min_rating @ '' or higher'') limit = Inr docs"
  shows "(d \<in> set docs \<and> parse_movie_info (page_content d) ''rating'' = Some v
            \<and> to_float v = None
          \<longrightarrow> (\<exists>m. get_recommendations_by_rating search to_float float_str r min_rating limit
                      = Inl (ValueError m)))
       \<and> ((\<forall>d \<in> set docs. rating_readable to_float d)
          \<longrightarrow> get_recommendations_by_rating search to_float float_str r min_rating limit
                = Inr (concat (map (entries_of_doc to_float min_rating) docs)))"
  using assms rating_loop_raises[of d docs v to_float min_rating "[]"]
    rating_loop_readable[of docs to_float min_rating "[]"]
  by (simp add: get_recommendations_by_rating_def)

text \<open>
  The theorem at two inputs with the threshold 8: a store whose second entry has the rating
  \<open>Unknown\<close> (the function raises), and a store whose first entry has no rating and whose
  second has the rating 8.5 (the first is dropped, the second returned).
\<close>

theorem rating_conversion_unguarded_witness:
  "get_similar_movies first_k
      (example_recommender [''title: heat rating: 8.5'', ''title: alien rating: Unknown''] [])
      (''movies with rating '' @ example_num_str 8 @ '' or higher'') 5
     = Inr [\<lparr>page_content = ''title: heat rating: 8.5'', metadata = []\<rparr>,
            \<lparr>page_content = ''title: alien rating: Unknown'', metadata = []\<rparr>]
   \<and> parse_movie_info ''title: alien rating: Unknown'' ''rating'' = Some ''Unknown''
   \<and> decimal_float ''Unknown'' = None
   \<and> (\<exists>m. get_recommendations_by_rating first_k decimal_float example_num_str
          (example_recommender [''title: heat rating: 8.5'', ''title: alien rating: Unknown''] [])
          8 5
        = Inl (ValueError m))
   \<and> get_similar_movies first_k
      (example_recommender [''title: heat genre: crime'', ''title: alien rating: 8.5''] [])
      (''movies with rating '' @ example_num_str 8 @ '' or higher'') 5
     = Inr [\<lparr>page_content = ''title: heat genre: crime'', metadata = []\<rparr>,
            \<lparr>page_content = ''title: alien rating: 8.5'', metadata = []\<rparr>]
   \<and> rating_readable decimal_float \<lparr>page_content = ''title: heat genre: crime'', metadata = []\<rparr>
   \<and> rating_readable decimal_float \<lparr>page_content = ''title: alien rating: 8.5'', metadata = []\<rparr>
   \<and> get_recommendations_by_rating first_k decimal_float example_num_str
          (example_recommender [''title: heat genre: crime'', ''title: alien rating: 8.5''] []) 8 5
        = Inr [\<lparr>title = ''alien'', genre = ''Unknown'', rating = 17 / 2, runtime = ''Unknown'',
                certificate = ''Unknown''\<rparr>]"
proof -
  let ?a = "\<lparr>page_content = ''title: heat rating: 8.5'', metadata = []\<rparr>"
  let ?b = "\<lparr>page_content = ''title: alien rating: Unknown'', metadata = []\<rparr>"
  let ?c = "\<lparr>page_content = ''title: heat genre: crime'', metadata = []\<rparr>"
  let ?d = "\<lparr>page_content = ''title: alien rating: 8.5'', metadata = []\<rparr>"
  let ?r1 = "example_recommender [''title: heat rating: 8.5'', ''title: alien rating: Unknown''] []"
  let ?r2 = "example_recommender [''title: heat genre: crime'', ''title: alien rating: 8.5''] []"
  have s1: "get_similar_movies first_k ?r1
              (''movies with rating '' @ example_num_str 8 @ '' or higher'') 5 = Inr [?a, ?b]"
    by (simp add: get_similar_movies_def first_k_def example_recommender_def example_store_def)
  have s2: "get_similar_movies first_k ?r2
              (''movies with rating '' @ example_num_str 8 @ '' or higher'') 5 = Inr [?c, ?d]"
    by (simp add: get_similar_movies_def first_k_def example_recommender_def example_store_def)
  have p: "parse_movie_info (page_content ?b) ''rating'' = Some ''Unknown''"
    by (simp add: parse_movie_info_def py_split_def py_isspace_def save_pair_def)
  have f: "decimal_float ''Unknown'' = None"
    by (simp add: decimal_float_def digit_of_def)
  have rc: "rating_readable decimal_float ?c"
    by (simp add: rating_readable_def parse_movie_info_def py_split_def py_isspace_def
          save_pair_def)
  have rd: "rating_readable decimal_float ?d"
    by (simp add: rating_readable_def parse_movie_info_def py_split_def py_isspace_def
          save_pair_def decimal_float_def digit_of_def)
  have e: "concat (map (entries_of_doc decimal_float 8) [?c, ?d])
             = [\<lparr>title = ''alien'', genre = ''Unknown'', rating = 17 / 2, runtime = ''Unknown'',
                 certificate = ''Unknown''\<rparr>]"
    by (simp add: entries_of_doc_def parse_movie_info_def py_split_def py_isspace_def
          save_pair_def decimal_float_def digit_of_def rating_entry_def get_or_unknown_def)
  have 1: "\<exists>m. get_recommendations_by_rating first_k decimal_float example_num_str ?r1 8 5
             = Inl (ValueError m)"
    using rating_conversion_unguarded[where search = first_k and r = ?r1
        and float_str = example_num_str and min_rating = 8 and limit = 5 and docs = "[?a, ?b]"
        and d = ?b and v = "''Unknown''" and to_float = decimal_float] s1 p f
    by simp
  have 2: "get_recommendations_by_rating first_k decimal_float example_num_str ?r2 8 5
             = Inr (concat (map (entries_of_doc decimal_float 8) [?c, ?d]))"
    using rating_conversion_unguarded[where search = first_k and r = ?r2
        and float_str = example_num_str and min_rating = 8 and limit = 5 and docs = "[?c, ?d]"
        and to_float = decimal_float] s2 rc rd
    by simp
  show ?thesis
    using s1 s2 p f rc rd 1 2 unfolding e by simp
qed

text \<open>
  Claim C10 as stated fails in its last part: with the threshold 0, a retrieved entry
  without a rating field is not filtered out; it is returned with the rating 0.
\<close>

theorem rating_absent_not_filtered_counterexample:
  "get_recommendations_by_rating first_k decimal_float example_num_str
     (example_recommender [''title: heat genre: crime''] []) 0 5
   = Inr [\<lparr>title = ''heat'', genre = ''crime'', rating = 0, runtime = ''Unknown'',
           certificate = ''Unknown''\<rparr>]"
  by (simp add: rec_defs)

section \<open>Properties of the data loader\<close>

subsection \<open>Duplicates\<close>











subsection \<open>The combined text\<close>

lemma combined_info_text_cong:
  assumes "map row' cols = map row cols"
  shows "combined_info_text num_str cols row' = combined_info_text num_str cols row"
proof -
  have e: "\<And>c. c \<in> set cols \<Longrightarrow> row' c = row c"
    using assms by (simp add: map_eq_conv)
  have f: "filter (\<lambda>col. row' col \<noteq> NaN \<and> py_strip (cell_str num_str (row' col)) \<noteq> []) cols
         = filter (\<lambda>col. row col \<noteq> NaN \<and> py_strip (cell_str num_str (row col)) \<noteq> []) cols"
    by (rule filter_cong) (simp_all add: e)
  have m: "map (\<lambda>col. col @ '': '' @ cell_str num_str (row' col))
             (filter (\<lambda>col. row col \<noteq> NaN \<and> py_strip (cell_str num_str (row col)) \<noteq> []) cols)
         = map (\<lambda>col. col @ '': '' @ cell_str num_str (row col))
             (filter (\<lambda>col. row col \<noteq> NaN \<and> py_strip (cell_str num_str (row col)) \<noteq> []) cols)"
    by (rule map_cong) (simp_all add: e)
  show ?thesis
    unfolding combined_info_text_def f m ..
qed

lemma create_combined_columns:
  "filter (\<lambda>col. col \<noteq> ''combined_info'') (columns (create_combined_info_column num_str t))
     = filter (\<lambda>col. col \<noteq> ''combined_info'') (columns t)"
  by (simp add: create_combined_info_column_def apply_rows_def Let_def)

lemma create_combined_idem:
  "create_combined_info_column num_str (create_combined_info_column num_str t)
     = create_combined_info_column num_str t"
proof -
  let ?cols = "filter (\<lambda>col. col \<noteq> ''combined_info'') (columns t)"
  have r: "combined_info_text num_str ?cols (row(''combined_info'' := x))
             = combined_info_text num_str ?cols row" for row x
    by (rule combined_info_text_cong) simp
  have c: "create_combined_info_column num_str t =
             \<lparr>columns = (if ''combined_info'' \<in> set (columns t) then columns t
                         else columns t @ [''combined_info'']),
              table_rows = map (\<lambda>row. row(''combined_info'' := Str (combined_info_text num_str ?cols row)))
                             (table_rows t)\<rparr>"
    by (simp add: create_combined_info_column_def apply_rows_def Let_def)
  show ?thesis
    unfolding create_combined_info_column_def[of num_str "create_combined_info_column num_str t"]
      Let_def create_combined_columns
    by (simp add: c apply_rows_def r)
qed

lemma create_combined_texts:
  "map (\<lambda>row. row ''combined_info'') (table_rows (create_combined_info_column num_str t))
     = map (\<lambda>row. Str (combined_info_text num_str
                         (filter (\<lambda>col. col \<noteq> ''combined_info'') (columns t)) row))
         (table_rows t)"
  by (simp add: create_combined_info_column_def apply_rows_def Let_def o_def)

lemma rows_agree:
  assumes "map (\<lambda>row. map row cols) rs' = map (\<lambda>row. map row cols) rs" and "set cols' \<subseteq> set cols"
  shows "map (\<lambda>row. combined_info_text num_str cols' row) rs'
       = map (\<lambda>row. combined_info_text num_str cols' row) rs"
  using assms(1)
proof (induction rs arbitrary: rs')
  case Nil
  then show ?case by simp
next
  case (Cons r rs)
  then obtain r' rs0 where s: "rs' = r' # rs0" by (cases rs') auto
  with Cons.prems have h: "map r' cols = map r cols"
    and t: "map (\<lambda>row. map row cols) rs0 = map (\<lambda>row. map row cols) rs" by simp_all
  have "map r' cols' = map r cols'"
    using h assms(2) by (auto simp add: map_eq_conv)
  from combined_info_text_cong[OF this] Cons.IH[OF t] s show ?case by simp
qed

text \<open>
  Claim C7. Generating the combined text again on the table the first generation left
  gives the same table, hence the same text in every row: the text is built from the
  columns other than \<open>combined_info\<close>, in the order of the table's columns. And two tables
  with the same columns whose rows have the same cells in these columns get the same texts,
  row by row: the text depends on nothing but the cells of the row and the order of the
  columns.
\<close>

theorem combined_info_deterministic:
  "create_combined_info_column num_str (create_combined_info_column num_str t)
     = create_combined_info_column num_str t
   \<and> (columns t' = columns t
        \<and> map (\<lambda>row. map row (columns t)) (table_rows t') = map (\<lambda>row. map row (columns t)) (table_rows t)
      \<longrightarrow> map (\<lambda>row. row ''combined_info'') (table_rows (create_combined_info_column num_str t'))
          = map (\<lambda>row. row ''combined_info'') (table_rows (create_combined_info_column num_str t)))"
proof -
  have "map (\<lambda>row. row ''combined_info'') (table_rows (create_combined_info_column num_str t'))
          = map (\<lambda>row. row ''combined_info'') (table_rows (create_combined_info_column num_str t))"
    if c: "columns t' = columns t"
    and r: "map (\<lambda>row. map row (columns t)) (table_rows t') = map (\<lambda>row. map row (columns t)) (table_rows t)"
  proof -
    have "map (\<lambda>row. combined_info_text num_str (filter (\<lambda>col. col \<noteq> ''combined_info'') (columns t)) row) (table_rows t')
        = map (\<lambda>row. combined_info_text num_str (filter (\<lambda>col. col \<noteq> ''combined_info'') (columns t)) row) (table_rows t)"
      by (rule rows_agree[OF r]) auto
    then have "map (\<lambda>row. Str (combined_info_text num_str (filter (\<lambda>col. col \<noteq> ''combined_info'') (columns t)) row)) (table_rows t')
        = map (\<lambda>row. Str (combined_info_text num_str (filter (\<lambda>col. col \<noteq> ''combined_info'') (columns t)) row)) (table_rows t)"
      by (simp add: map_eq_conv list_eq_iff_nth_eq)
    then show ?thesis
      unfolding create_combined_texts c by simp
  qed
  then show ?thesis
    using create_combined_idem by blast
qed

text \<open>
  The theorem on two tables of one row that differ only outside their columns; the
  missing \<open>votes\<close> cell is left out of the text.
\<close>

theorem combined_info_deterministic_witness:
  "columns \<lparr>columns = [''title'', ''rating'', ''votes''],
            table_rows = [(example_row [(''title'', Str ''heat''), (''rating'', Num (17 / 2))])
                            (''hidden'' := Str ''x'')]\<rparr>
     = columns \<lparr>columns = [''title'', ''rating'', ''votes''],
            table_rows = [example_row [(''title'', Str ''heat''), (''rating'', Num (17 / 2))]]\<rparr>
   \<and> map (\<lambda>row. map row [''title'', ''rating'', ''votes''])
         [(example_row [(''title'', Str ''heat''), (''rating'', Num (17 / 2))])(''hidden'' := Str ''x'')]
     = map (\<lambda>row. map row [''title'', ''rating'', ''votes''])
         [example_row [(''title'', Str ''heat''), (''rating'', Num (17 / 2))]]
   \<and> map (\<lambda>row. row ''combined_info'')
        (table_rows (create_combined_info_column example_num_str
           \<lparr>columns = [''title'', ''rating'', ''votes''],
            table_rows = [(example_row [(''title'', Str ''heat''), (''rating'', Num (17 / 2))])
                            (''hidden'' := Str ''x'')]\<rparr>))
     = [Str ''title: heat rating: 8.5'']
   \<and> map (\<lambda>row. row ''combined_info'')
        (table_rows (create_combined_info_column example_num_str
           \<lparr>columns = [''title'', ''rating'', ''votes''],
            table_rows = [example_row [(''title'', Str ''heat''), (''rating'', Num (17 / 2))]]\<rparr>))
     = [Str ''title: heat rating: 8.5'']"
proof -
  let ?r = "example_row [(''title'', Str ''heat''), (''rating'', Num (17 / 2))]"
  let ?t = "\<lparr>columns = [''title'', ''rating'', ''votes''], table_rows = [?r]\<rparr>"
  let ?t' = "\<lparr>columns = [''title'', ''rating'', ''votes''], table_rows = [?r(''hidden'' := Str ''x'')]\<rparr>"
  have c: "columns ?t' = columns ?t" by simp
  have r: "map (\<lambda>row. map row (columns ?t)) (table_rows ?t')
         = map (\<lambda>row. map row (columns ?t)) (table_rows ?t)"
    by (simp add: example_row_def)
  have e: "map (\<lambda>row. row ''combined_info'')
             (table_rows (create_combined_info_column example_num_str ?t))
           = [Str ''title: heat rating: 8.5'']"
    by (simp add: create_combined_info_column_def apply_rows_def combined_info_text_def
          example_row_def cell_str_def example_num_str_def py_strip_def py_isspace_def Let_def)
  from combined_info_deterministic[of example_num_str ?t ?t'] c r
  have "map (\<lambda>row. row ''combined_info'')
          (table_rows (create_combined_info_column example_num_str ?t'))
      = map (\<lambda>row. row ''combined_info'')
          (table_rows (create_combined_info_column example_num_str ?t))"
    by blast
  with e c r show ?thesis by simp
qed

subsection \<open>Numeric columns\<close>

text \<open>What the median fill does achieve: a column with at least one number has no missing cell left.\<close>

lemma sort_Nil_iff: "sort xs = [] \<longleftrightarrow> xs = []"
  by (metis length_0_conv length_sort)

lemma median_None_iff: "median xs = None \<longleftrightarrow> xs = []"
  by (cases "xs = []") (simp_all add: median_def Let_def sort_Nil_iff del: not_None_eq)

lemma series_median_some:
  "Num x \<in> set col \<Longrightarrow> \<exists>m. series_median col = Some m"
proof -
  assume "Num x \<in> set col"
  then have "x \<in> set (numbers_of col)" by (force simp add: numbers_of_def)
  then have "numbers_of col \<noteq> []" by auto
  then have "median (numbers_of col) \<noteq> None" by (simp add: median_None_iff)
  then show ?thesis by (auto simp add: series_median_def)
qed

lemma fillna_median_fills:
  assumes "series_median col = Some m"
  shows "fillna_median col = map (\<lambda>c. if c = NaN then Num m else c) col"
    and "NaN \<notin> set (fillna_median col)"
  using assms by (auto simp add: fillna_median_def)

lemma numeric_column_complete:
  assumes "Num x \<in> set (to_numeric to_float col)"
  shows "NaN \<notin> set (numeric_column to_float col)"
proof -
  obtain m where "series_median (to_numeric to_float col) = Some m"
    using series_median_some[OF assms] by blast
  then show ?thesis
    unfolding numeric_column_def by (rule fillna_median_fills(2))
qed

lemma numeric_column_all_missing:
  assumes "numbers_of (to_numeric to_float col) = []"
  shows "numeric_column to_float col = to_numeric to_float col"
  using assms by (simp add: numeric_column_def fillna_median_def series_median_def median_def)

lemma paren_not_kept: "\<not> keep_char (CHR ''('')"
  by (simp add: keep_char_def is_word_def py_isspace_def)

lemma py_lower_paren: "py_lower c = CHR ''('' \<Longrightarrow> c = CHR ''(''"
proof (cases "map_of (zip ''ABCDEFGHIJKLMNOPQRSTUVWXYZ'' ''abcdefghijklmnopqrstuvwxyz'') c")
  case None
  then show "py_lower c = CHR ''('' \<Longrightarrow> c = CHR ''(''" by (simp add: py_lower_def)
next
  case (Some l)
  then have "(c, l) \<in> set (zip ''ABCDEFGHIJKLMNOPQRSTUVWXYZ'' ''abcdefghijklmnopqrstuvwxyz'')"
    by (rule map_of_SomeD)
  then have "l \<in> set ''abcdefghijklmnopqrstuvwxyz''" by (rule set_zip_rightD)
  then have "l \<noteq> CHR ''(''" by auto
  with Some show "py_lower c = CHR ''('' \<Longrightarrow> c = CHR ''(''" by (simp add: py_lower_def)
qed

lemma set_collapse_ws: "set (collapse_ws s) \<subseteq> insert (CHR '' '') (set s)"
proof (induction s rule: collapse_ws.induct)
  case 1
  then show ?case by simp
next
  case (2 c cs)
  then show ?case by (auto split: if_splits dest!: set_dropWhileD)
qed

lemma set_py_strip: "set (py_strip s) \<subseteq> set s"
  unfolding py_strip_def by (auto dest!: set_dropWhileD)

lemma clean_text_no_paren: "CHR ''('' \<notin> set (clean_text s)"
proof (cases "s = ''nan''")
  case True
  then show ?thesis by (simp add: clean_text_def)
next
  case False
  let ?t2 = "py_strip (collapse_ws (filter keep_char s))"
  have "CHR ''('' \<notin> set (filter keep_char s)" using paren_not_kept by simp
  then have "CHR ''('' \<notin> set (collapse_ws (filter keep_char s))"
    using set_collapse_ws[of "filter keep_char s"] by auto
  then have n: "CHR ''('' \<notin> set ?t2"
    using set_py_strip[of "collapse_ws (filter keep_char s)"] by auto
  have "CHR ''('' \<notin> set (map py_lower ?t2)"
  proof
    assume "CHR ''('' \<in> set (map py_lower ?t2)"
    then obtain c where "c \<in> set ?t2" "py_lower c = CHR ''(''" by auto
    with py_lower_paren n show False by blast
  qed
  with False show ?thesis by (simp add: clean_text_def Let_def)
qed

lemma extract_year_no_paren: "CHR ''('' \<notin> set s \<Longrightarrow> extract_year s = None"
  by (induction s) auto

lemma numbers_of_all_missing: "numbers_of (map (\<lambda>_. NaN) col) = []"
  by (induction col) (simp_all add: numbers_of_def)

lemma fillna_median_all_missing: "fillna_median (map (\<lambda>_. NaN) col) = map (\<lambda>_. NaN) col"
  by (simp add: fillna_median_def series_median_def median_def numbers_of_all_missing)

text \<open>
  Claim C3 fails on the \<open>year\<close> column. \<open>clean_data\<close> cleans the titles before it extracts
  the year, and a cleaned title has no parenthesis left, so the pattern of the extraction
  never matches: whatever the raw titles are, every cell of the \<open>year\<close> column is missing
  after cleaning, and the median that should fill it does not exist.
\<close>

theorem cleaned_year_always_missing:
  "cleaned_year to_float num_str raw_title = map (\<lambda>_. NaN) raw_title"
proof -
  have l: "length (handle_missing_values raw_title) = length raw_title"
    by (simp add: handle_missing_values_def fillna_median_def split: option.splits)
  have "str_extract_year (clean_text_column num_str col) = map (\<lambda>_. NaN) col" for col
    by (simp add: str_extract_year_def clean_text_column_def o_def extract_year_no_paren
          clean_text_no_paren)
  then have "year_column to_float (clean_text_column num_str col) = map (\<lambda>_. NaN) col" for col
    by (simp add: year_column_def to_numeric_def fillna_median_all_missing o_def)
  then have "cleaned_year to_float num_str raw_title = map (\<lambda>_. NaN) (handle_missing_values raw_title)"
    by (simp add: cleaned_year_def)
  also have "\<dots> = map (\<lambda>_. NaN) raw_title"
    using l by (simp add: map_replicate_const)
  finally show ?thesis .
qed

text \<open>
  Concrete columns: two titles with years (the cleaned column has no year, although the
  extraction on the raw titles finds both); a rating column without any number stays
  missing; a rating column with numbers is filled with their median.
\<close>

lemma cleaned_columns_examples:
  "cleaned_year decimal_float example_num_str [Str ''Heat (1995)'', Str ''Alien (1979)''] = [NaN, NaN]"
  "year_column decimal_float [Str ''Heat (1995)'', Str ''Alien (1979)''] = [Num 1995, Num 1979]"
  "map clean_text [''Heat (1995)'', ''Alien (1979)''] = [''heat 1995'', ''alien 1979'']"
  "cleaned_rating decimal_float [Str ''N/A'', NaN] = [NaN, NaN]"
  "cleaned_rating decimal_float [Num 8, NaN, Num 9] = [Num 8, Num (17/2), Num 9]"
  "cleaned_rating decimal_float [Str ''8'', NaN, Str ''9'', Str ''bad'', Str ''7''] = [Num 8, Num 8, Num 9, Num 8, Num 7]"
  by (simp_all add: cleaned_year_def year_column_def clean_text_column_def handle_missing_values_def
     is_numeric_column_def fillna_median_def series_median_def median_def numbers_of_def to_numeric_def
     str_extract_year_def is_digit_def cell_str_def clean_text_def keep_char_def is_word_def py_isspace_def
     py_strip_def py_lower_def decimal_float_def digit_of_def cleaned_rating_def numeric_column_def Let_def)

end
